theory Spec2Isabelle
  imports Complex_Main "HOL-Library.Word"
begin

unbundle bit_operations_syntax

section \<open>The shared-memory arena: data model\<close>

text \<open>
  The allocator lives in one translation unit: the class
  \<^verbatim>\<open>global_shared_allocator::driver\<close>, placed at the start of the mapped segment,
  and its nested \<^verbatim>\<open>chunk\<close>.  The model is for the 64-bit build
  (\<^verbatim>\<open>sizeof(size_t) == 8\<close>): sizes and addresses are 64-bit words, pointers are byte
  addresses and the null pointer is the address 0.

  The mapped segment is a store from byte addresses to the 8-byte field that starts
  there.  Every field the allocator reads or writes (\<^verbatim>\<open>size_\<close>, \<^verbatim>\<open>prev_\<close>,
  \<^verbatim>\<open>next_\<close>) is 8 bytes wide and 8-byte aligned, so two fields overlap only when their
  addresses are equal.  The fields \<^verbatim>\<open>sem_\<close>, \<^verbatim>\<open>addr_\<close> and \<^verbatim>\<open>size_\<close> of the driver
  object are kept as record fields of their own; the array \<^verbatim>\<open>free_list_\<close> and all
  chunks are in the store, since the code reaches both through chunk pointers.
\<close>

type_synonym size_t = "64 word"
type_synonym ptr = "64 word"

datatype error = logic_error string | bad_alloc | system_error string

record state =
  driver_p :: ptr                 \<comment> \<open>\<^verbatim>\<open>global_shared_allocator::driver_\<close>\<close>
  sem_v :: nat                    \<comment> \<open>value of the semaphore \<^verbatim>\<open>driver_->sem_\<close>\<close>
  addr_v :: ptr                   \<comment> \<open>\<^verbatim>\<open>driver_->addr_\<close>\<close>
  size_v :: size_t                \<comment> \<open>\<^verbatim>\<open>driver_->size_\<close>\<close>
  mem :: "ptr \<Rightarrow> size_t"         \<comment> \<open>the mapped segment\<close>
  shm_len :: size_t               \<comment> \<open>length of the file behind \<^verbatim>\<open>shmfd_\<close>\<close>
  trunc_ok :: "size_t \<Rightarrow> bool"    \<comment> \<open>whether \<^verbatim>\<open>ftruncate\<close> to this length succeeds\<close>

text \<open>A computation returns a value or throws, and leaves a state behind in both cases.\<close>

type_synonym 'a result = "(error + 'a) \<times> state"

subsection \<open>Compile-time constants\<close>

definition max_size :: size_t where
  "max_size = push_bit 32 1"

definition min_size :: size_t where
  "min_size = 4096"

definition data_align :: size_t where
  "data_align = 16"

definition min_data_size :: size_t where
  "min_data_size = data_align"

definition n_free_list :: size_t where
  "n_free_list = push_bit 3 8"

text \<open>
  \<^verbatim>\<open>sizeof(chunk_header)\<close> and \<^verbatim>\<open>sizeof(chunk_footer)\<close>: a \<^verbatim>\<open>size_t\<close> and a pointer,
  aligned to \<^verbatim>\<open>data_align_\<close>; \<^verbatim>\<open>sizeof(chunk)\<close> is the two placeholders.
\<close>

definition sizeof_chunk_header :: size_t where
  "sizeof_chunk_header = 16"

definition sizeof_chunk_footer :: size_t where
  "sizeof_chunk_footer = 16"

definition sizeof_chunk :: size_t where
  "sizeof_chunk = sizeof_chunk_header + sizeof_chunk_footer"

definition min_chunk_size :: size_t where
  "min_chunk_size = sizeof_chunk + min_data_size"

text \<open>
  Layout of the driver object with the 32-byte \<^verbatim>\<open>sem_t\<close> of 64-bit Linux:
  \<^verbatim>\<open>sem_\<close> at 0, \<^verbatim>\<open>addr_\<close> at 32, \<^verbatim>\<open>size_\<close> at 40, \<^verbatim>\<open>free_list_\<close> at 48
  (64 chunks of 32 bytes), hence \<^verbatim>\<open>sizeof(driver) = 2096\<close>.
\<close>

definition offsetof_free_list :: size_t where
  "offsetof_free_list = 48"

definition sizeof_driver :: size_t where
  "sizeof_driver = offsetof_free_list + n_free_list * sizeof_chunk"

subsection \<open>Fields of headers and footers\<close>

text \<open>
  \<^verbatim>\<open>chunk_header\<close> is \<^verbatim>\<open>{size_; prev_}\<close> and \<^verbatim>\<open>chunk_footer\<close> is \<^verbatim>\<open>{size_; next_}\<close>:
  the first field at offset 0, the second at offset 8.
\<close>

definition get_size :: "state \<Rightarrow> ptr \<Rightarrow> size_t" where
  "get_size st h = mem st h"

definition get_link :: "state \<Rightarrow> ptr \<Rightarrow> ptr" where
  "get_link st h = mem st (h + 8)"

definition set_size :: "ptr \<Rightarrow> size_t \<Rightarrow> state \<Rightarrow> state" where
  "set_size h v st = st\<lparr>mem := (mem st)(h := v)\<rparr>"

definition set_link :: "ptr \<Rightarrow> ptr \<Rightarrow> state \<Rightarrow> state" where
  "set_link h v st = st\<lparr>mem := (mem st)(h + 8 := v)\<rparr>"

section \<open>Chunk primitives\<close>

text \<open>
  \<^verbatim>\<open>__builtin_clzll\<close>, the number of leading zero bits of a 64-bit value, is a compiler
  builtin; it is modelled by counting down from bit 63.
\<close>

fun clz_from :: "nat \<Rightarrow> 64 word \<Rightarrow> nat" where
  "clz_from 0 w = 0"
| "clz_from (Suc k) w = (if bit w k then 0 else Suc (clz_from k w))"

definition clzll :: "64 word \<Rightarrow> nat" where
  "clzll w = clz_from 64 w"

definition list_index :: "size_t \<Rightarrow> error + size_t" where
  "list_index sz =
     (if sz = 0 then Inl (logic_error ''list_index: zero size'')
      else Inr (of_nat (63 - clzll sz)))"

definition get_chunk :: "ptr \<Rightarrow> error + ptr" where
  "get_chunk data =
     (if data AND (data_align - 1) \<noteq> 0 then Inl (logic_error ''get_chunk: data unaligned'')
      else Inr (data - sizeof_chunk_header))"

definition header :: "ptr \<Rightarrow> ptr" where
  "header c = c"

definition chunk_size :: "state \<Rightarrow> ptr \<Rightarrow> size_t" where
  "chunk_size st c = get_size st (header c)"

definition full_size :: "state \<Rightarrow> ptr \<Rightarrow> size_t" where
  "full_size st c = chunk_size st c + sizeof_chunk"

definition footer :: "state \<Rightarrow> ptr \<Rightarrow> ptr" where
  "footer st c = c + full_size st c - sizeof_chunk_footer"

definition allocated :: "state \<Rightarrow> ptr \<Rightarrow> bool" where
  "allocated st c = (get_size st (footer st c) = 0)"

definition data :: "ptr \<Rightarrow> ptr" where
  "data c = header c + sizeof_chunk_header"

definition before :: "state \<Rightarrow> ptr \<Rightarrow> error + ptr" where
  "before st c =
     (if c = driver_p st + sizeof_driver then Inr 0
      else let f = c - sizeof_chunk_footer in
        if get_size st f = 0 then Inr 0
        else get_chunk (f - get_size st f))"

definition after :: "state \<Rightarrow> ptr \<Rightarrow> ptr" where
  "after st c =
     (let c' = footer st c + sizeof_chunk_footer in
      if c' + min_chunk_size > driver_p st + size_v st then 0
      else if allocated st c' then 0
      else c')"

subsection \<open>Free-list manipulation\<close>

definition free_list :: "state \<Rightarrow> size_t \<Rightarrow> ptr" where
  "free_list st i = driver_p st + offsetof_free_list + i * sizeof_chunk"

definition add :: "ptr \<Rightarrow> state \<Rightarrow> unit result" where
  "add c st =
     (case list_index (chunk_size st c) of
        Inl e \<Rightarrow> (Inl e, st)
      | Inr i \<Rightarrow>
          let p = free_list st i;
              n = get_link st (footer st p);
              st1 = set_link (footer st p) c st;
              st2 = set_link (header c) p st1;
              st3 = set_link (footer st2 c) n st2;
              st4 = (if n \<noteq> 0 then set_link (header n) c st3 else st3)
          in (Inr (), st4))"

definition remove :: "ptr \<Rightarrow> state \<Rightarrow> state" where
  "remove c st =
     (let p = get_link st (header c);
          n = get_link st (footer st c);
          st1 = set_link (header c) 0 st;
          st2 = set_link (footer st1 c) 0 st1;
          st3 = set_link (footer st2 p) n st2
      in if n \<noteq> 0 then set_link (header n) p st3 else st3)"

text \<open>
  \<^verbatim>\<open>add_chunk\<close> and \<^verbatim>\<open>coalesce\<close> call each other.  Nothing in the code bounds the
  recursion on a corrupted segment, so both take fuel, and \<open>None\<close> stands for a
  computation that does not return.
\<close>

fun coalesce :: "nat \<Rightarrow> ptr \<Rightarrow> state \<Rightarrow> ptr result option"
and add_chunk :: "nat \<Rightarrow> ptr \<Rightarrow> size_t \<Rightarrow> state \<Rightarrow> ptr result option" where
  "coalesce 0 c st = None"
| "coalesce (Suc k) c st =
     (case before st c of
        Inl e \<Rightarrow> Some (Inl e, st)
      | Inr b \<Rightarrow>
          let a = after st c in
          if a = 0 \<and> b = 0 then
            (case add c st of
               (Inl e, st') \<Rightarrow> Some (Inl e, st')
             | (Inr _, st') \<Rightarrow> Some (Inr c, st'))
          else
            let st1 = (if b \<noteq> 0 then remove b st else st);
                st2 = (if a \<noteq> 0 then remove a st1 else st1);
                new_size = full_size st2 c + (if b \<noteq> 0 then full_size st2 b else 0)
                             + (if a \<noteq> 0 then full_size st2 a else 0);
                b' = (if b = 0 then c else b)
            in add_chunk k b' new_size st2)"
| "add_chunk k addr sz st =
     (if sz AND (data_align - 1) \<noteq> 0 then Some (Inl (logic_error ''add_chunk: size unaligned''), st)
      else if sz < min_chunk_size then Some (Inl (logic_error ''add_chunk: size too small''), st)
      else
        let c = addr;
            st1 = set_size (header c) (sz - sizeof_chunk) st;
            st2 = set_link (header c) 0 st1;
            st3 = set_size (footer st2 c) (get_size st2 (header c)) st2;
            st4 = set_link (footer st3 c) 0 st3
        in coalesce k c st4)"

definition split :: "nat \<Rightarrow> size_t \<Rightarrow> ptr \<Rightarrow> state \<Rightarrow> unit result option" where
  "split k remsize c st =
     (if remsize < min_chunk_size then Some (Inl (logic_error ''split: size too small''), st)
      else if remsize AND (data_align - 1) \<noteq> 0 then Some (Inl (logic_error ''split: size unaligned''), st)
      else
        let st1 = set_size (header c) (get_size st (header c) - remsize) st;
            st2 = set_size (footer st1 c) 0 st1;
            st3 = set_link (footer st2 c) 0 st2
        in case add_chunk k (footer st3 c + sizeof_chunk_footer) remsize st3 of
             None \<Rightarrow> None
           | Some (Inl e, st') \<Rightarrow> Some (Inl e, st')
           | Some (Inr _, st') \<Rightarrow> Some (Inr (), st'))"

definition chunk_allocate :: "nat \<Rightarrow> size_t \<Rightarrow> ptr \<Rightarrow> state \<Rightarrow> unit result option" where
  "chunk_allocate k reqsize c st =
     (if reqsize AND (data_align - 1) \<noteq> 0 then Some (Inl (logic_error ''allocate: size unaligned''), st)
      else if chunk_size st c < reqsize then Some (Inl (logic_error ''allocate: size too small''), st)
      else
        let st1 = remove c st;
            remsize = chunk_size st1 c - reqsize
        in if remsize \<ge> min_chunk_size then split k remsize c st1
           else Some (Inr (), set_size (footer st1 c) 0 st1))"

definition chunk_deallocate :: "nat \<Rightarrow> ptr \<Rightarrow> state \<Rightarrow> unit result option" where
  "chunk_deallocate k c st =
     (if get_size st (footer st c) \<noteq> 0 then Some (Inl (logic_error ''deallocate: unexpected footer size''), st)
      else
        let st1 = set_size (footer st c) (get_size st (header c)) st
        in case coalesce k c st1 of
             None \<Rightarrow> None
           | Some (Inl e, st') \<Rightarrow> Some (Inl e, st')
           | Some (Inr _, st') \<Rightarrow> Some (Inr (), st'))"

section \<open>The heap manager\<close>

subsection \<open>Segment extension\<close>

text \<open>
  The loop \<^verbatim>\<open>while(s < max_size_ && s - size_ < size) s *= 2;\<close> of \<^verbatim>\<open>extend\<close>.
  It does not end from \<open>s = 0\<close>, hence the fuel.
\<close>

fun grow :: "nat \<Rightarrow> size_t \<Rightarrow> size_t \<Rightarrow> size_t \<Rightarrow> size_t option" where
  "grow 0 s cur sz = None"
| "grow (Suc k) s cur sz =
     (if s < max_size \<and> s - cur < sz then grow k (s * 2) cur sz else Some s)"

definition extend :: "nat \<Rightarrow> size_t \<Rightarrow> state \<Rightarrow> ptr result option" where
  "extend k sz st =
     (case grow k (size_v st) (size_v st) sz of
        None \<Rightarrow> None
      | Some s \<Rightarrow>
          if s - size_v st < sz then Some (Inl bad_alloc, st)
          else
            let sz' = s - size_v st in
            if \<not> trunc_ok st s then Some (Inl (system_error ''ftruncate''), st)
            else
              let st1 = st\<lparr>shm_len := s\<rparr>;
                  c = driver_p st1 + size_v st1;
                  st2 = st1\<lparr>size_v := s\<rparr>
              in add_chunk k c sz' st2)"

subsection \<open>The inter-process lock\<close>

text \<open>
  \<^verbatim>\<open>struct lock\<close> waits on the semaphore in its constructor and posts it in its
  destructor, which runs on every exit of the scope, an exception included.  A wait on a
  semaphore of value 0 blocks; in this model of one process nobody posts it, so the
  call does not return.  Failures of \<^verbatim>\<open>sem_wait\<close> and \<^verbatim>\<open>sem_post\<close> themselves
  (interruption by a signal handler, an invalid semaphore) are outside the model.
\<close>

definition sem_wait :: "state \<Rightarrow> state option" where
  "sem_wait st = (if sem_v st = 0 then None else Some (st\<lparr>sem_v := sem_v st - 1\<rparr>))"

definition sem_post :: "state \<Rightarrow> state" where
  "sem_post st = st\<lparr>sem_v := sem_v st + 1\<rparr>"

definition with_lock :: "(state \<Rightarrow> 'a result option) \<Rightarrow> state \<Rightarrow> 'a result option" where
  "with_lock body st =
     (case sem_wait st of
        None \<Rightarrow> None
      | Some st1 \<Rightarrow>
          (case body st1 of
             None \<Rightarrow> None
           | Some (r, st2) \<Rightarrow> Some (r, sem_post st2)))"

subsection \<open>Allocation and deallocation\<close>

text \<open>
  The inner loop of \<^verbatim>\<open>allocate\<close>, \<^verbatim>\<open>while(c) { if(c->size() >= size) ...; c = c->footer()->next_; }\<close>:
  the result is the first chunk of the list that fits, or 0 when the list ends without
  one.  A cyclic list keeps it running, hence the fuel.
\<close>

fun first_fit :: "nat \<Rightarrow> state \<Rightarrow> size_t \<Rightarrow> ptr \<Rightarrow> ptr option" where
  "first_fit 0 st sz c = None"
| "first_fit (Suc k) st sz c =
     (if c = 0 then Some 0
      else if chunk_size st c \<ge> sz then Some c
      else first_fit k st sz (get_link st (footer st c)))"

text \<open>
  The outer loop, \<^verbatim>\<open>for(size_t i = ...; i < n_free_list_; ++i)\<close>: the first fitting
  chunk of the lists \<open>i\<close>, \<open>i + 1\<close>, ..., or 0.
\<close>

function search :: "nat \<Rightarrow> state \<Rightarrow> size_t \<Rightarrow> size_t \<Rightarrow> ptr option" where
  "search k st sz i =
     (if i < n_free_list then
        (case first_fit k st sz (get_link st (footer st (free_list st i))) of
           None \<Rightarrow> None
         | Some c \<Rightarrow> if c \<noteq> 0 then Some c else search k st sz (i + 1))
      else Some 0)"
  by pat_completeness auto
termination
proof (relation "measure (\<lambda>(k, st, sz, i). 64 - unat i)")
  show "wf (measure (\<lambda>(k, st, sz, i). 64 - unat i))"
    by simp
next
  fix k :: nat and st :: state and sz i :: size_t and x2 :: ptr
  assume "i < n_free_list"
  then have "unat i < 64"
    by (simp add: n_free_list_def word_less_nat_alt)
  moreover from this have "unat (i + 1) = unat i + 1"
    by (simp add: unat_word_ariths)
  ultimately show "((k, st, sz, i + 1), (k, st, sz, i)) \<in> measure (\<lambda>(k, st, sz, i). 64 - unat i)"
    by simp
qed

declare search.simps [simp del]

definition allocate_locked :: "nat \<Rightarrow> size_t \<Rightarrow> state \<Rightarrow> ptr result option" where
  "allocate_locked k sz st =
     (case list_index sz of
        Inl e \<Rightarrow> Some (Inl e, st)
      | Inr i \<Rightarrow>
          (case search k st sz i of
             None \<Rightarrow> None
           | Some c \<Rightarrow>
               if c \<noteq> 0 then
                 (case chunk_allocate k sz c st of
                    None \<Rightarrow> None
                  | Some (Inl e, st') \<Rightarrow> Some (Inl e, st')
                  | Some (Inr _, st') \<Rightarrow> Some (Inr (data c), st'))
               else
                 (case extend k (sz + sizeof_chunk) st of
                    None \<Rightarrow> None
                  | Some (Inl e, st') \<Rightarrow> Some (Inl e, st')
                  | Some (Inr c', st') \<Rightarrow>
                      (case chunk_allocate k sz c' st' of
                         None \<Rightarrow> None
                       | Some (Inl e, st'') \<Rightarrow> Some (Inl e, st'')
                       | Some (Inr _, st'') \<Rightarrow> Some (Inr (data c'), st'')))))"

definition allocate :: "nat \<Rightarrow> size_t \<Rightarrow> state \<Rightarrow> ptr result option" where
  "allocate k sz st =
     (if sz = 0 then Some (Inr 0, st)
      else
        let sz' = (sz + data_align - 1) AND NOT (data_align - 1)
        in with_lock (allocate_locked k sz') st)"

definition deallocate_locked :: "nat \<Rightarrow> ptr \<Rightarrow> state \<Rightarrow> unit result option" where
  "deallocate_locked k p st =
     (case get_chunk p of
        Inl e \<Rightarrow> Some (Inl e, st)
      | Inr c \<Rightarrow> chunk_deallocate k c st)"

definition deallocate :: "nat \<Rightarrow> ptr \<Rightarrow> size_t \<Rightarrow> state \<Rightarrow> unit result option" where
  "deallocate k p n st =
     (if p = 0 then Some (Inr (), st)
      else with_lock (deallocate_locked k p) st)"

subsection \<open>Construction of the driver\<close>

text \<open>
  \<^verbatim>\<open>memset(free_list_, 0, sizeof free_list_)\<close> clears the bytes of the array, that is
  every field that starts at an offset below \<^verbatim>\<open>sizeof free_list_\<close> from its start.
\<close>

definition memset_free_list :: "state \<Rightarrow> state" where
  "memset_free_list st =
     st\<lparr>mem := (\<lambda>a. if a - (driver_p st + offsetof_free_list) < n_free_list * sizeof_chunk
                     then 0 else mem st a)\<rparr>"

text \<open>
  The constructor \<^verbatim>\<open>driver(size_t size)\<close>, run by the master at the mapping address
  \<open>this\<close>, to which \<^verbatim>\<open>create\<close> has set \<^verbatim>\<open>driver_\<close> before.  The contents \<open>m\<close> of the fresh
  mapping and the behaviour \<open>t\<close> of later \<^verbatim>\<open>ftruncate\<close> calls are arbitrary.
\<close>

definition driver_ctor :: "nat \<Rightarrow> ptr \<Rightarrow> size_t \<Rightarrow> (ptr \<Rightarrow> size_t) \<Rightarrow> (size_t \<Rightarrow> bool) \<Rightarrow> unit result option" where
  "driver_ctor k this sz m t =
     (let st0 = \<lparr>driver_p = this, sem_v = 1, addr_v = this, size_v = sz, mem = m,
                 shm_len = sz, trunc_ok = t\<rparr>;
          st1 = memset_free_list st0;
          sz' = sz - sizeof_driver
      in if sz' \<ge> min_chunk_size then
           (case add_chunk k (this + sizeof_driver) sz' st1 of
              None \<Rightarrow> None
            | Some (Inl e, st') \<Rightarrow> Some (Inl e, st')
            | Some (Inr _, st') \<Rightarrow> Some (Inr (), st'))
         else Some (Inr (), st1))"

section \<open>Properties\<close>

subsection \<open>Values of the constants\<close>

lemma max_size_val: "max_size = 4294967296"
  by (simp add: max_size_def)

lemma n_free_list_val: "n_free_list = 64"
  by (simp add: n_free_list_def)

lemma sizeof_chunk_val: "sizeof_chunk = 32"
  by (simp add: sizeof_chunk_def sizeof_chunk_header_def sizeof_chunk_footer_def)

lemma min_chunk_size_val: "min_chunk_size = 48"
  by (simp add: min_chunk_size_def sizeof_chunk_val min_data_size_def data_align_def)

lemma sizeof_driver_val: "sizeof_driver = 2096"
  by (simp add: sizeof_driver_def offsetof_free_list_def n_free_list_val sizeof_chunk_val)

subsection \<open>Size classes\<close>

lemma clz_from_top:
  "\<exists>j<k. bit w j \<Longrightarrow>
   clz_from k w < k \<and> bit w (k - 1 - clz_from k w) \<and>
   (\<forall>j. k - 1 - clz_from k w < j \<and> j < k \<longrightarrow> \<not> bit w j)"
proof (induction k)
  case 0
  then show ?case by simp
next
  case (Suc k)
  show ?case
  proof (cases "bit w k")
    case True
    then show ?thesis by auto
  next
    case False
    with Suc.prems have "\<exists>j<k. bit w j"
      by (metis less_Suc_eq)
    from Suc.IH [OF this] False show ?thesis
      by (auto simp: Suc_diff_Suc less_Suc_eq)
  qed
qed

lemma word_nonzero_bit: "(w :: 64 word) \<noteq> 0 \<Longrightarrow> \<exists>j<64. bit w j"
proof (rule ccontr)
  assume "w \<noteq> 0" and "\<not> (\<exists>j<64. bit w j)"
  then have "w = 0"
    by (intro bit_word_eqI) simp
  with \<open>w \<noteq> 0\<close> show False by simp
qed

lemma top_bit_bounds:
  fixes w :: "64 word"
  assumes "bit w i" and "\<forall>j. i < j \<and> j < 64 \<longrightarrow> \<not> bit w j"
  shows "2 ^ i \<le> unat w \<and> unat w < 2 ^ (i + 1)"
proof
  have "bit (unat w) i" using assms(1) by (simp add: bit_unsigned_iff)
  then have "odd (unat w div 2 ^ i)" by (simp add: bit_iff_odd)
  then have "unat w div 2 ^ i \<noteq> 0" by (metis even_zero)
  then show "2 ^ i \<le> unat w"
    by (metis div_less not_le)
  have "take_bit (i + 1) w = w"
  proof (rule bit_word_eqI)
    fix n assume "n < LENGTH(64)"
    with assms(2) show "bit (take_bit (i + 1) w) n = bit w n"
      by (auto simp: bit_take_bit_iff) (meson not_less_eq not_less le_imp_less_Suc)
  qed
  then have "unat w = take_bit (i + 1) (unat w)"
    by (metis unsigned_take_bit_eq)
  then show "unat w < 2 ^ (i + 1)"
    by (metis take_bit_nat_less_exp)
qed

lemma list_index_bounds:
  assumes "s \<noteq> 0"
  shows "\<exists>i<64. list_index s = Inr (of_nat i) \<and> 2 ^ i \<le> unat s \<and> unat s < 2 ^ (i + 1)"
proof -
  from assms have ex: "\<exists>j<64. bit s j"
    by (rule word_nonzero_bit)
  define i where "i = 63 - clzll s"
  from clz_from_top [OF ex] have b: "bit s i"
    and h: "\<forall>j. i < j \<and> j < 64 \<longrightarrow> \<not> bit s j"
    by (simp_all add: clzll_def i_def)
  from top_bit_bounds [OF b h] assms show ?thesis
    by (intro exI [of _ i]) (simp add: list_index_def i_def)
qed

text \<open>
  C8.  \<^verbatim>\<open>list_index\<close> throws a logic error for the size 0, and for every size
  \<open>s > 0\<close> it returns the integer part of the binary logarithm of \<open>s\<close>, which is below
  the number of free lists, the bit width 64 of \<^verbatim>\<open>size_t\<close>.
\<close>

theorem list_index_floor_log2:
  "list_index 0 = Inl (logic_error ''list_index: zero size'') \<and>
   (s \<noteq> 0 \<longrightarrow> (\<exists>i. list_index s = Inr i \<and> i < n_free_list \<and> unat n_free_list = 64 \<and>
       int (unat i) = \<lfloor>log 2 (real (unat s))\<rfloor> \<and>
       2 ^ unat i \<le> unat s \<and> unat s < 2 ^ (unat i + 1)))"
proof (intro conjI impI)
  show "list_index 0 = Inl (logic_error ''list_index: zero size'')"
    by (simp add: list_index_def)
next
  assume "s \<noteq> 0"
  from list_index_bounds [OF this] obtain i where i63: "i < 64"
    and li: "list_index s = Inr (of_nat i)"
    and bounds: "2 ^ i \<le> unat s" "unat s < 2 ^ (i + 1)"
    by blast
  from i63 have u: "unat (of_nat i :: size_t) = i"
    by (simp add: unat_of_nat)
  have fl: "\<lfloor>log 2 (real (unat s))\<rfloor> = int i"
    using floor_log_nat_eq_if [of 2 i "unat s"] bounds by simp
  have lt: "(of_nat i :: size_t) < n_free_list"
    using i63 u by (simp add: n_free_list_val word_less_nat_alt)
  show "\<exists>r. list_index s = Inr r \<and> r < n_free_list \<and> unat n_free_list = 64 \<and>
       int (unat r) = \<lfloor>log 2 (real (unat s))\<rfloor> \<and>
       2 ^ unat r \<le> unat s \<and> unat s < 2 ^ (unat r + 1)"
    using li bounds fl lt u
    by (intro exI [of _ "of_nat i"]) (simp add: n_free_list_val)
qed

theorem list_index_floor_log2_witness:
  "(1968 :: size_t) \<noteq> 0 \<and> (\<exists>i. list_index 1968 = Inr i \<and> i < n_free_list \<and>
       int (unat i) = \<lfloor>log 2 (real (unat (1968 :: size_t)))\<rfloor>)"
  using list_index_floor_log2 [of 1968] by auto

subsection \<open>Requests that do nothing\<close>

lemma with_lock_blocks: "sem_v st = 0 \<Longrightarrow> with_lock body st = None"
  by (simp add: with_lock_def sem_wait_def)

text \<open>
  C9.  \<^verbatim>\<open>allocate(0)\<close> returns the null pointer and \<^verbatim>\<open>deallocate(nullptr, n)\<close> returns,
  both in the state they started from and whatever the value of the semaphore: they
  return also when it is 0, where taking the lock would block (\<open>with_lock_blocks\<close>).
\<close>

theorem allocate_zero_deallocate_null:
  "allocate k 0 st = Some (Inr 0, st) \<and> deallocate k 0 n st = Some (Inr (), st)"
  by (simp add: allocate_def deallocate_def)

end
